theory Spec2Isabelle
  imports Complex_Main "HOL-Library.Multiset"
begin

section \<open>The ratio-distribution script\<close>

text \<open>
  The program is \<^verbatim>\<open>display.py\<close>, a straight-line script of twelve library calls:
  two \<^verbatim>\<open>pd.read_csv\<close>, one \<^verbatim>\<open>plt.figure\<close>, two \<^verbatim>\<open>plt.hist\<close>, then \<^verbatim>\<open>plt.xlim\<close>,
  \<^verbatim>\<open>plt.xlabel\<close>, \<^verbatim>\<open>plt.ylabel\<close>, \<^verbatim>\<open>plt.title\<close>, \<^verbatim>\<open>plt.legend\<close>, \<^verbatim>\<open>plt.savefig\<close> and
  \<^verbatim>\<open>plt.close\<close>. It has no function of its own, so the embedding is the sequence of these
  calls with the literal arguments of the script, over an explicit state: the files of the
  working directory and the open figures of pyplot.

  The calls themselves are pandas, numpy and matplotlib. Each is modelled by its documented
  behaviour on the arguments the script passes, and each such definition says what it
  covers. Ratio values are real numbers: a float64 is read as the rational it denotes, and
  rounding inside the libraries is not modelled.
\<close>

subsection \<open>Data model\<close>

text \<open>One row of a data frame with the columns \<^verbatim>\<open>names=['image', 'ratio']\<close>.\<close>

record RatioRecord =
  image_id :: string
  ratio :: real

type_synonym Dataset = "RatioRecord list"

text \<open>
  One bar series, as \<^verbatim>\<open>plt.hist\<close> adds it to the axes: the bin counts, the bin edges and
  the keyword arguments \<^verbatim>\<open>alpha\<close>, \<^verbatim>\<open>color\<close> and \<^verbatim>\<open>label\<close>.
\<close>

record series =
  counts :: "nat list"
  edges :: "real list"
  alpha :: real
  color :: string
  label :: string

text \<open>
  A figure with its single axes. \<open>legend\<close> is \<open>None\<close> until \<^verbatim>\<open>plt.legend\<close> is called and
  then holds the labels of the legend's entries; \<open>xlim\<close> is \<open>None\<close> while the axis is
  autoscaled.
\<close>

record figure =
  figsize :: "real \<times> real"
  bars :: "series list"
  xlim :: "(real \<times> real) option"
  xlabel :: string
  ylabel :: string
  title :: string
  legend :: "string list option"

text \<open>
  A file is a text file, given by its lines, or an image written by \<^verbatim>\<open>plt.savefig\<close>, given
  by the figure it renders (the rendering backend is a function of the figure).
\<close>

datatype content = Text "string list" | Png figure

text \<open>
  The state: the files of the working directory by name, and the figures pyplot holds
  open, the current one last.
\<close>

record world =
  files :: "string \<rightharpoonup> content"
  figs :: "figure list"

datatype error =
    FileNotFoundError string
  | UnicodeDecodeError string
  | ValueError
  | Unmodelled_row nat

subsection \<open>\<^verbatim>\<open>pd.read_csv\<close>\<close>

text \<open>Fields of a line: the text between the commas.\<close>

fun split_on :: "char \<Rightarrow> string \<Rightarrow> string list" where
  "split_on d [] = [[]]"
| "split_on d (c # cs) =
     (if c = d then [] # split_on d cs
      else (case split_on d cs of [] \<Rightarrow> [[c]] | f # fs \<Rightarrow> (c # f) # fs))"

definition is_digit :: "char \<Rightarrow> bool" where
  "is_digit c \<longleftrightarrow> (48::nat) \<le> of_char c \<and> (of_char c :: nat) \<le> 57"

definition digits_val :: "string \<Rightarrow> nat" where
  "digits_val s = foldl (\<lambda>a c. 10 * a + (of_char c - 48)) 0 s"

text \<open>
  Decimal text: digits with at most one point and at least one digit. The value is exact.
\<close>

definition parse_unsigned :: "string \<Rightarrow> real option" where
  "parse_unsigned s =
     (let ip = takeWhile is_digit s; rest = dropWhile is_digit s
      in case rest of
           [] \<Rightarrow> if ip = [] then None else Some (real (digits_val ip))
         | c # fp \<Rightarrow>
             if c = CHR ''.'' \<and> list_all is_digit fp \<and> \<not> (ip = [] \<and> fp = [])
             then Some (real (digits_val ip) + real (digits_val fp) / 10 ^ length fp)
             else None)"

definition parse_float :: "string \<Rightarrow> real option" where
  "parse_float s =
     (case s of
        [] \<Rightarrow> None
      | c # t \<Rightarrow>
          if c = CHR ''-'' then map_option uminus (parse_unsigned t)
          else if c = CHR ''+'' then parse_unsigned t
          else parse_unsigned s)"

text \<open>
  A line in the input format: no quote character and no carriage return, exactly two
  fields, the second one decimal text. Only such lines are modelled; on any other line
  (quoted fields, a different number of fields, empty or non-decimal ratio text) what
  pandas builds and what matplotlib then does with it is not modelled, and the model stops
  with \<open>Unmodelled_row\<close>. No statement below says what the script does on such a line.
\<close>

definition parse_line :: "string \<Rightarrow> RatioRecord option" where
  "parse_line l =
     (if CHR 0x22 \<in> set l \<or> CHR 0x0D \<in> set l then None
      else case split_on CHR '','' l of
             [i, r] \<Rightarrow> map_option (\<lambda>v. \<lparr>image_id = i, ratio = v\<rparr>) (parse_float r)
           | _ \<Rightarrow> None)"

text \<open>The rows of a file from line number \<open>n\<close> on; blank lines are skipped
  (\<^verbatim>\<open>skip_blank_lines=True\<close> is the default).\<close>

fun parse_rows :: "nat \<Rightarrow> string list \<Rightarrow> error + Dataset" where
  "parse_rows n [] = Inr []"
| "parse_rows n (l # ls) =
     (if l = [] then parse_rows (Suc n) ls
      else case parse_line l of
             None \<Rightarrow> Inl (Unmodelled_row n)
           | Some r \<Rightarrow>
               (case parse_rows (Suc n) ls of
                  Inl e \<Rightarrow> Inl e
                | Inr rs \<Rightarrow> Inr (r # rs)))"

text \<open>
  \<^verbatim>\<open>pd.read_csv(path, header=None, names=['image', 'ratio'])\<close>. A missing file raises
  \<^verbatim>\<open>FileNotFoundError\<close>; an image is not UTF-8 text. With \<^verbatim>\<open>header=None\<close> every line
  is data, from the first one on, and the columns take the names passed; with the names
  passed, a file without lines is an empty frame. The identifier column is kept as the text
  of the field.
\<close>

definition read_csv :: "string \<Rightarrow> world \<Rightarrow> error + Dataset" where
  "read_csv path w =
     (case files w path of
        None \<Rightarrow> Inl (FileNotFoundError path)
      | Some (Png _) \<Rightarrow> Inl (UnicodeDecodeError path)
      | Some (Text ls) \<Rightarrow> parse_rows 0 ls)"

subsection \<open>\<^verbatim>\<open>np.histogram\<close> with a bin count and a range\<close>

text \<open>
  The edges are \<^verbatim>\<open>linspace(first_edge, last_edge, bins + 1)\<close>; they do not depend on the
  data.
\<close>

definition bin_edges :: "nat \<Rightarrow> real \<times> real \<Rightarrow> real list" where
  "bin_edges n r =
     map (\<lambda>k. fst r + (snd r - fst r) * real k / real n) [0..<Suc n]"

text \<open>
  The bin of a kept value: \<^verbatim>\<open>int((v - first_edge) / (last_edge - first_edge) * bins)\<close>,
  and \<^verbatim>\<open>indices[indices == bins] -= 1\<close> puts the last edge into the last bin. numpy then
  moves an index by one where rounding put the value on the wrong side of an edge; with
  exact arithmetic that step changes nothing and is left out.
\<close>

definition bin_index :: "nat \<Rightarrow> real \<times> real \<Rightarrow> real \<Rightarrow> nat" where
  "bin_index n r v =
     (let i = nat \<lfloor>(v - fst r) / (snd r - fst r) * real n\<rfloor>
      in if i = n then n - 1 else i)"

text \<open>
  The mask \<^verbatim>\<open>keep = (a >= first_edge) & (a <= last_edge)\<close>: both ends are kept.
\<close>

definition keep :: "real \<times> real \<Rightarrow> real \<Rightarrow> bool" where
  "keep r v \<longleftrightarrow> fst r \<le> v \<and> v \<le> snd r"

text \<open>\<^verbatim>\<open>np.bincount(indices, minlength=bins)\<close>.\<close>

definition bincount :: "nat list \<Rightarrow> nat \<Rightarrow> nat list" where
  "bincount idx n = map (\<lambda>i. count_list idx i) [0..<n]"

text \<open>
  \<^verbatim>\<open>np.histogram(a, bins=n, range=r)\<close> returns the counts and the edges. It raises
  \<^verbatim>\<open>ValueError\<close> for \<open>n < 1\<close> and for a range whose maximum is below its minimum, and
  widens an empty range by one half on each side.
\<close>

definition histogram :: "real list \<Rightarrow> nat \<Rightarrow> real \<times> real \<Rightarrow> error + nat list \<times> real list" where
  "histogram a n r =
     (if n < 1 \<or> snd r < fst r then Inl ValueError
      else let r' = (if fst r = snd r then (fst r - 1 / 2, snd r + 1 / 2) else r)
           in Inr (bincount (map (bin_index n r') (filter (keep r') a)) n, bin_edges n r'))"

subsection \<open>pyplot\<close>

text \<open>A new figure has empty axes; the default size is 6.4 by 4.8.\<close>

definition new_figure :: "real \<times> real \<Rightarrow> figure" where
  "new_figure sz =
     \<lparr>figsize = sz, bars = [], xlim = None, xlabel = [], ylabel = [], title = [],
      legend = None\<rparr>"

text \<open>\<^verbatim>\<open>plt.figure(figsize=sz)\<close> opens a figure and makes it the current one.\<close>

definition plt_figure :: "real \<times> real \<Rightarrow> world \<Rightarrow> world" where
  "plt_figure sz w = w\<lparr>figs := figs w @ [new_figure sz]\<rparr>"

text \<open>\<^verbatim>\<open>plt.gcf()\<close>: the current figure; one is opened when there is none.\<close>

definition gcf :: "world \<Rightarrow> world" where
  "gcf w = (if figs w = [] then plt_figure (32 / 5, 24 / 5) w else w)"

text \<open>Every drawing call of pyplot acts on the current figure.\<close>

definition on_current :: "(figure \<Rightarrow> figure) \<Rightarrow> world \<Rightarrow> world" where
  "on_current g w =
     (let w' = gcf w in w'\<lparr>figs := butlast (figs w') @ [g (last (figs w'))]\<rparr>)"

text \<open>
  \<^verbatim>\<open>plt.hist(x, bins=n, alpha=a, color=c, label=l, range=r)\<close> for one data set \<open>x\<close>: the
  counts and edges of \<^verbatim>\<open>np.histogram(x, n, range=r)\<close> become a bar series of the current
  axes.
\<close>

definition plt_hist ::
  "real list \<Rightarrow> nat \<Rightarrow> real \<Rightarrow> string \<Rightarrow> string \<Rightarrow> real \<times> real \<Rightarrow> world \<Rightarrow> error + world" where
  "plt_hist x n a c l r w =
     (case histogram x n r of
        Inl e \<Rightarrow> Inl e
      | Inr (m, b) \<Rightarrow>
          Inr (on_current
                 (\<lambda>f. f\<lparr>bars := bars f @
                     [\<lparr>counts = m, edges = b, alpha = a, color = c, label = l\<rparr>]\<rparr>) w))"

definition plt_xlim :: "real \<times> real \<Rightarrow> world \<Rightarrow> world" where
  "plt_xlim r = on_current (\<lambda>f. f\<lparr>xlim := Some r\<rparr>)"

definition plt_xlabel :: "string \<Rightarrow> world \<Rightarrow> world" where
  "plt_xlabel s = on_current (\<lambda>f. f\<lparr>xlabel := s\<rparr>)"

definition plt_ylabel :: "string \<Rightarrow> world \<Rightarrow> world" where
  "plt_ylabel s = on_current (\<lambda>f. f\<lparr>ylabel := s\<rparr>)"

definition plt_title :: "string \<Rightarrow> world \<Rightarrow> world" where
  "plt_title s = on_current (\<lambda>f. f\<lparr>title := s\<rparr>)"

text \<open>
  \<^verbatim>\<open>plt.legend()\<close> without arguments: one entry for each series whose label is not empty
  and does not start with an underscore.
\<close>

definition plt_legend :: "world \<Rightarrow> world" where
  "plt_legend =
     on_current (\<lambda>f. f\<lparr>legend :=
       Some (filter (\<lambda>l. l \<noteq> [] \<and> hd l \<noteq> CHR ''_'') (map label (bars f)))\<rparr>)"

text \<open>
  \<^verbatim>\<open>plt.savefig(path)\<close> writes the current figure to the file, replacing what the name
  held. Failures of the write itself (a read-only directory, a full disk) are not
  modelled.
\<close>

definition plt_savefig :: "string \<Rightarrow> world \<Rightarrow> world" where
  "plt_savefig path w =
     (let w' = gcf w in w'\<lparr>files := (files w')(path \<mapsto> Png (last (figs w')))\<rparr>)"

text \<open>\<^verbatim>\<open>plt.close()\<close> closes the current figure, if there is one.\<close>

definition plt_close :: "world \<Rightarrow> world" where
  "plt_close w = w\<lparr>figs := butlast (figs w)\<rparr>"

subsection \<open>The script\<close>

text \<open>
  \<^verbatim>\<open>display.py\<close>, statement by statement. An exception of a call ends the script: the
  statements after it do not run.
\<close>

definition display :: "world \<Rightarrow> error + world" where
  "display w0 =
     (case read_csv ''mel_ratios.txt'' w0 of
        Inl e \<Rightarrow> Inl e
      | Inr mel_data \<Rightarrow>
     (case read_csv ''nv_ratios.txt'' w0 of
        Inl e \<Rightarrow> Inl e
      | Inr nv_data \<Rightarrow>
     (let w1 = plt_figure (10, 6) w0 in
      case plt_hist (map ratio mel_data) 50 (1 / 2) ''red'' ''Melanoma'' (0, 1 / 20) w1 of
        Inl e \<Rightarrow> Inl e
      | Inr w2 \<Rightarrow>
     (case plt_hist (map ratio nv_data) 50 (1 / 2) ''blue'' ''Normal'' (0, 1 / 20) w2 of
        Inl e \<Rightarrow> Inl e
      | Inr w3 \<Rightarrow>
     (let w4 = plt_xlim (0, 1 / 20) w3;
          w5 = plt_xlabel ''Ratio'' w4;
          w6 = plt_ylabel ''Frequency'' w5;
          w7 = plt_title ''Distribution of Ratios: Melanoma vs Normal'' w6;
          w8 = plt_legend w7;
          w9 = plt_savefig ''ratio_distribution.png'' w8
      in Inr (plt_close w9))))))"

text \<open>
  The process: exit status and the state it leaves. An uncaught exception ends the
  interpreter with status 1; every call that can raise comes before any call that writes a
  file, and the figures of a process end with it.
\<close>

definition run :: "world \<Rightarrow> nat \<times> world" where
  "run w = (case display w of Inl e \<Rightarrow> (1, w) | Inr w' \<Rightarrow> (0, w'))"

text \<open>The image the output file holds.\<close>

definition output_image :: "world \<Rightarrow> figure option" where
  "output_image w =
     (case files w ''ratio_distribution.png'' of
        Some (Png f) \<Rightarrow> Some f
      | _ \<Rightarrow> None)"

text \<open>The bin counts and the labels of the series in the output image, in drawing order.\<close>

definition output_counts :: "world \<Rightarrow> nat list list option" where
  "output_counts w = map_option (\<lambda>f. map counts (bars f)) (output_image w)"


subsection \<open>The renderer and the bins, as the specification words them\<close>

text \<open>
  The counts of a series for the fixed histogram specification, 50 bins over the range
  from 0 to 0.05.
\<close>

definition hist_counts :: "real list \<Rightarrow> nat list" where
  "hist_counts a =
     bincount (map (bin_index 50 (0, 1 / 20)) (filter (keep (0, 1 / 20)) a)) 50"

text \<open>
  The figure of the renderer's contract: two half-transparent series over shared bins,
  labelled Melanoma and Normal, with fixed axis bounds, axis labels, title and legend.
\<close>

definition spec_figure :: "real list \<Rightarrow> real list \<Rightarrow> figure" where
  "spec_figure xs ys =
     \<lparr>figsize = (10, 6),
      bars =
        [\<lparr>counts = hist_counts xs, edges = bin_edges 50 (0, 1 / 20), alpha = 1 / 2,
          color = ''red'', label = ''Melanoma''\<rparr>,
         \<lparr>counts = hist_counts ys, edges = bin_edges 50 (0, 1 / 20), alpha = 1 / 2,
          color = ''blue'', label = ''Normal''\<rparr>],
      xlim = Some (0, 1 / 20),
      xlabel = ''Ratio'',
      ylabel = ''Frequency'',
      title = ''Distribution of Ratios: Melanoma vs Normal'',
      legend = Some [''Melanoma'', ''Normal'']\<rparr>"


subsection \<open>Working directories used as concrete inputs\<close>

text \<open>
  The example of the specification's testable properties: two melanoma rows and one normal
  row, no figure open.
\<close>

definition example_world :: world where
  "example_world =
     \<lparr>files =
        [''mel_ratios.txt'' \<mapsto> Text [''img1,0.01'', ''img2,0.02''],
         ''nv_ratios.txt'' \<mapsto> Text [''img1,0.005'']],
      figs = []\<rparr>"

text \<open>The same ratio columns under other identifiers.\<close>

definition renamed_world :: world where
  "renamed_world =
     \<lparr>files =
        [''mel_ratios.txt'' \<mapsto> Text [''a,0.01'', ''b,0.02''],
         ''nv_ratios.txt'' \<mapsto> Text [''c,0.005'']],
      figs = []\<rparr>"



text \<open>A directory that already holds an output file.\<close>

definition rerun_world :: world where
  "rerun_world =
     \<lparr>files =
        [''mel_ratios.txt'' \<mapsto> Text [''img1,0.01'', ''img2,0.02''],
         ''nv_ratios.txt'' \<mapsto> Text [''img1,0.005''],
         ''ratio_distribution.png'' \<mapsto> Png (new_figure (1, 1))],
      figs = []\<rparr>"

text \<open>
  The same input files in a directory with another file and an older output file, in a
  process that already holds a figure open.
\<close>

definition busy_world :: world where
  "busy_world =
     \<lparr>files =
        [''mel_ratios.txt'' \<mapsto> Text [''img1,0.01'', ''img2,0.02''],
         ''nv_ratios.txt'' \<mapsto> Text [''img1,0.005''],
         ''notes.txt'' \<mapsto> Text [''two classes''],
         ''ratio_distribution.png'' \<mapsto> Png (new_figure (1, 1))],
      figs = [new_figure (2, 2)]\<rparr>"

section \<open>Properties\<close>

subsection \<open>The script in closed form\<close>

text \<open>
  With the script's arguments \<^verbatim>\<open>np.histogram\<close> never raises, and the twelve calls
  amount to loading both files and storing one figure, \<open>spec_figure\<close>, in the output
  file; the figure opened by the run is closed again.
\<close>

lemma histogram_script: "histogram a 50 (0, 1 / 20) = Inr (hist_counts a, bin_edges 50 (0, 1 / 20))"
  by (simp add: histogram_def hist_counts_def Let_def)

lemma display_eq:
  "display w =
     (case read_csv ''mel_ratios.txt'' w of
        Inl e \<Rightarrow> Inl e
      | Inr m \<Rightarrow>
          (case read_csv ''nv_ratios.txt'' w of
             Inl e \<Rightarrow> Inl e
           | Inr n \<Rightarrow>
               Inr (w\<lparr>files := (files w)(''ratio_distribution.png'' \<mapsto>
                      Png (spec_figure (map ratio m) (map ratio n)))\<rparr>)))"
  by (simp add: display_def histogram_script plt_hist_def plt_figure_def on_current_def gcf_def
      plt_xlim_def plt_xlabel_def plt_ylabel_def plt_title_def plt_legend_def plt_savefig_def
      plt_close_def new_figure_def spec_figure_def Let_def split: sum.splits)

lemma run_eq:
  "run w =
     (case read_csv ''mel_ratios.txt'' w of
        Inl e \<Rightarrow> (1, w)
      | Inr m \<Rightarrow>
          (case read_csv ''nv_ratios.txt'' w of
             Inl e \<Rightarrow> (1, w)
           | Inr n \<Rightarrow>
               (0, w\<lparr>files := (files w)(''ratio_distribution.png'' \<mapsto>
                      Png (spec_figure (map ratio m) (map ratio n)))\<rparr>)))"
  by (simp add: run_def display_eq split: sum.splits)

lemma run_ok:
  assumes "read_csv ''mel_ratios.txt'' w = Inr m"
    and "read_csv ''nv_ratios.txt'' w = Inr n"
  shows "run w =
     (0, w\<lparr>files := (files w)(''ratio_distribution.png'' \<mapsto>
            Png (spec_figure (map ratio m) (map ratio n)))\<rparr>)"
  using assms by (simp add: run_eq)

lemma run_ok_reads:
  assumes "fst (run w) = 0"
  shows "\<exists>m n. read_csv ''mel_ratios.txt'' w = Inr m \<and>
    read_csv ''nv_ratios.txt'' w = Inr n"
  using assms by (auto simp: run_eq split: sum.splits)

lemma output_counts_run:
  assumes "read_csv ''mel_ratios.txt'' w = Inr m"
    and "read_csv ''nv_ratios.txt'' w = Inr n"
  shows "output_counts (snd (run w)) = Some [hist_counts (map ratio m), hist_counts (map ratio n)]"
  by (simp add: run_ok [OF assms] output_counts_def output_image_def spec_figure_def)

lemma savefig_close:
  assumes "figs v \<noteq> []"
  shows "plt_close (plt_savefig path v) =
     v\<lparr>files := (files v)(path \<mapsto> Png (last (figs v))), figs := butlast (figs v)\<rparr>"
  using assms by (simp add: plt_close_def plt_savefig_def gcf_def Let_def)

subsection \<open>The loader\<close>

lemma read_csv_Text:
  "files w p = Some (Text ls) \<Longrightarrow> read_csv p w = parse_rows 0 ls"
  by (simp add: read_csv_def)










subsection \<open>Counts, indices and edges\<close>









lemma hist_counts_outside:
  assumes "\<forall>v\<in>set a. v < 0 \<or> 1 / 20 < v"
  shows "hist_counts a = replicate 50 0"
proof -
  have "filter (keep (0, 1 / 20)) a = []" using assms by (auto simp: keep_def filter_empty_conv)
  then show ?thesis by (simp add: hist_counts_def bincount_def map_replicate_const)
qed










subsection \<open>The concrete inputs, loaded\<close>

lemma read_example_mel:
  "read_csv ''mel_ratios.txt'' example_world =
     Inr [\<lparr>image_id = ''img1'', ratio = 1 / 100\<rparr>, \<lparr>image_id = ''img2'', ratio = 1 / 50\<rparr>]"
  by code_simp

lemma read_example_nv:
  "read_csv ''nv_ratios.txt'' example_world = Inr [\<lparr>image_id = ''img1'', ratio = 1 / 200\<rparr>]"
  by code_simp

lemma read_renamed_mel:
  "read_csv ''mel_ratios.txt'' renamed_world =
     Inr [\<lparr>image_id = ''a'', ratio = 1 / 100\<rparr>, \<lparr>image_id = ''b'', ratio = 1 / 50\<rparr>]"
  by code_simp

lemma read_renamed_nv:
  "read_csv ''nv_ratios.txt'' renamed_world = Inr [\<lparr>image_id = ''c'', ratio = 1 / 200\<rparr>]"
  by code_simp



lemma empty_inputs_succeed:
  assumes "files w ''mel_ratios.txt'' = Some (Text [])"
    and "files w ''nv_ratios.txt'' = Some (Text [])"
  shows "fst (run w) = 0 \<and> output_counts (snd (run w)) = Some [replicate 50 0, replicate 50 0]"
proof -
  have m: "read_csv ''mel_ratios.txt'' w = Inr []" using assms(1) by (simp add: read_csv_Text)
  have n: "read_csv ''nv_ratios.txt'' w = Inr []" using assms(2) by (simp add: read_csv_Text)
  have "hist_counts [] = replicate 50 0" by (rule hist_counts_outside) simp
  then have "output_counts (snd (run w)) = Some [replicate 50 0, replicate 50 0]"
    by (simp add: output_counts_run [OF m n])
  moreover have "fst (run w) = 0" by (simp add: run_ok [OF m n])
  ultimately show ?thesis by simp
qed

subsection \<open>Values outside the range\<close>




subsection \<open>One histogram specification for both series\<close>



subsection \<open>A missing input file\<close>



subsection \<open>Two labelled series\<close>



subsection \<open>Row order\<close>



subsection \<open>Determinism\<close>

text \<open>
  Claim C6. Two runs on the same pair of input files end with the same exit status and,
  when they succeed, with the same output image, whatever else differs between them: other
  files, an older output file, figures already open in the process. The image is the
  figure handed to the rendering backend, which the claim holds fixed.
\<close>

theorem same_inputs_same_image:
  assumes "files w' ''mel_ratios.txt'' = files w ''mel_ratios.txt''"
    and "files w' ''nv_ratios.txt'' = files w ''nv_ratios.txt''"
  shows "fst (run w') = fst (run w) \<and>
     (fst (run w) = 0 \<longrightarrow> output_image (snd (run w')) = output_image (snd (run w)))"
proof -
  have m: "read_csv ''mel_ratios.txt'' w' = read_csv ''mel_ratios.txt'' w"
    using assms(1) by (simp add: read_csv_def)
  have n: "read_csv ''nv_ratios.txt'' w' = read_csv ''nv_ratios.txt'' w"
    using assms(2) by (simp add: read_csv_def)
  have "fst (run w') = fst (run w)"
    by (simp add: run_eq m n split: sum.splits)
  moreover have "output_image (snd (run w')) = output_image (snd (run w))" if "fst (run w) = 0"
  proof -
    from run_ok_reads [OF that] obtain a b
      where r: "read_csv ''mel_ratios.txt'' w = Inr a" "read_csv ''nv_ratios.txt'' w = Inr b"
      by blast
    from r m n have r': "read_csv ''mel_ratios.txt'' w' = Inr a" "read_csv ''nv_ratios.txt'' w' = Inr b"
      by simp_all
    show ?thesis by (simp add: run_ok [OF r] run_ok [OF r'] output_image_def)
  qed
  ultimately show ?thesis by blast
qed

theorem same_inputs_same_image_witness:
  "files busy_world ''mel_ratios.txt'' = files example_world ''mel_ratios.txt'' \<and>
   files busy_world ''nv_ratios.txt'' = files example_world ''nv_ratios.txt'' \<and>
   figs busy_world \<noteq> figs example_world \<and>
   fst (run example_world) = 0 \<and> fst (run busy_world) = 0 \<and>
   output_image (snd (run busy_world)) = output_image (snd (run example_world))"
proof -
  have f: "files busy_world ''mel_ratios.txt'' = files example_world ''mel_ratios.txt''"
    by (simp add: busy_world_def example_world_def)
  have g: "files busy_world ''nv_ratios.txt'' = files example_world ''nv_ratios.txt''"
    by (simp add: busy_world_def example_world_def)
  have d: "figs busy_world \<noteq> figs example_world"
    by (simp add: busy_world_def example_world_def)
  have z: "fst (run example_world) = 0" by code_simp
  from same_inputs_same_image [OF f g] f g d z show ?thesis by simp
qed

subsection \<open>The identifier column\<close>

text \<open>
  Claim C7. Two working directories whose input files load to data frames with the same
  ratio columns (the identifier may differ in every row) give the same exit status and the
  same output image: the script passes only the column \<^verbatim>\<open>ratio\<close> to \<^verbatim>\<open>plt.hist\<close>.
\<close>

theorem identifier_unused:
  assumes "read_csv ''mel_ratios.txt'' w = Inr m"
    and "read_csv ''nv_ratios.txt'' w = Inr n"
    and "read_csv ''mel_ratios.txt'' w' = Inr m'"
    and "read_csv ''nv_ratios.txt'' w' = Inr n'"
    and "map ratio m' = map ratio m"
    and "map ratio n' = map ratio n"
  shows "fst (run w') = fst (run w) \<and> output_image (snd (run w')) = output_image (snd (run w))"
  using assms(5,6)
  by (simp add: run_ok [OF assms(1,2)] run_ok [OF assms(3,4)] output_image_def)

theorem identifier_unused_witness:
  "read_csv ''mel_ratios.txt'' example_world =
     Inr [\<lparr>image_id = ''img1'', ratio = 1 / 100\<rparr>, \<lparr>image_id = ''img2'', ratio = 1 / 50\<rparr>] \<and>
   read_csv ''mel_ratios.txt'' renamed_world =
     Inr [\<lparr>image_id = ''a'', ratio = 1 / 100\<rparr>, \<lparr>image_id = ''b'', ratio = 1 / 50\<rparr>] \<and>
   read_csv ''nv_ratios.txt'' example_world = Inr [\<lparr>image_id = ''img1'', ratio = 1 / 200\<rparr>] \<and>
   read_csv ''nv_ratios.txt'' renamed_world = Inr [\<lparr>image_id = ''c'', ratio = 1 / 200\<rparr>] \<and>
   fst (run renamed_world) = fst (run example_world) \<and>
   output_image (snd (run renamed_world)) = output_image (snd (run example_world))"
  using identifier_unused [OF read_example_mel read_example_nv read_renamed_mel read_renamed_nv]
    read_example_mel read_example_nv read_renamed_mel read_renamed_nv
  by simp

subsection \<open>One record per line\<close>



subsection \<open>The writer\<close>

text \<open>
  Claim C9. After a successful run the files are those before it with
  \<^verbatim>\<open>ratio_distribution.png\<close> set to the rendered figure, whatever the name held before, and
  the open figures are those before the run: the figure the run opened is closed. A fresh
  process holds no figure, and then none is left.
\<close>

theorem writer_saves_then_closes:
  assumes "fst (run w) = 0"
  shows "\<exists>m n. read_csv ''mel_ratios.txt'' w = Inr m \<and>
     read_csv ''nv_ratios.txt'' w = Inr n \<and>
     files (snd (run w)) =
       (files w)(''ratio_distribution.png'' \<mapsto> Png (spec_figure (map ratio m) (map ratio n))) \<and>
     figs (snd (run w)) = figs w"
proof -
  from run_ok_reads [OF assms] obtain m n
    where r: "read_csv ''mel_ratios.txt'' w = Inr m" "read_csv ''nv_ratios.txt'' w = Inr n"
    by blast
  show ?thesis using r by (simp add: run_ok [OF r])
qed

theorem writer_saves_then_closes_witness:
  "fst (run rerun_world) = 0 \<and>
   files rerun_world ''ratio_distribution.png'' = Some (Png (new_figure (1, 1))) \<and>
   files (snd (run rerun_world)) ''ratio_distribution.png'' =
     Some (Png (spec_figure [1 / 100, 1 / 50] [1 / 200])) \<and>
   figs (snd (run rerun_world)) = []"
proof -
  have z: "fst (run rerun_world) = 0" by code_simp
  have m: "read_csv ''mel_ratios.txt'' rerun_world =
     Inr [\<lparr>image_id = ''img1'', ratio = 1 / 100\<rparr>, \<lparr>image_id = ''img2'', ratio = 1 / 50\<rparr>]"
    by code_simp
  have n: "read_csv ''nv_ratios.txt'' rerun_world = Inr [\<lparr>image_id = ''img1'', ratio = 1 / 200\<rparr>]"
    by code_simp
  have o: "files rerun_world ''ratio_distribution.png'' = Some (Png (new_figure (1, 1)))"
    by (simp add: rerun_world_def)
  have g: "figs rerun_world = []" by (simp add: rerun_world_def)
  from writer_saves_then_closes [OF z] m n z o g show ?thesis by auto
qed

subsection \<open>The bins partition the range\<close>



end
